theory Spec2Isabelle
  imports Main "HOL-Library.AList"
begin

section \<open>Errors, outcomes and the world\<close>

text \<open>
  The script of \<^verbatim>\<open>automate_presentation.py\<close> is a chain of library calls. Every
  exception that such a call can raise on the paths studied here is a value of
  \<open>error\<close>; \<^verbatim>\<open>sys.exit(1)\<close> is the outcome \<open>Exited 1\<close>.
\<close>

datatype error =
  FileNotFoundError | ParserError | KeyError | AttributeError | ValueError
  | IndexError | UnidentifiedImageError

datatype 'a outcome = is_Returned: Returned (result: 'a) | Raised error | Exited int

datatype level = INFO | ERROR

definition raise_bind :: "error + 'a \<Rightarrow> ('a \<Rightarrow> error + 'b) \<Rightarrow> error + 'b" where
  "raise_bind m f = (case m of Inl e \<Rightarrow> Inl e | Inr x \<Rightarrow> f x)"

section \<open>Tables and data frames\<close>

text \<open>
  A cell is missing (\<open>NaN\<close>), a text, a number, or the list of texts that
  \<^verbatim>\<open>str.split\<close> produces. A row is an association list from column names to
  cells; a column that a row does not mention is missing there.
\<close>

datatype cell = NaN | Str string | Num int | Lst "string list"

type_synonym row = "(string \<times> cell) list"

definition row_get :: "row \<Rightarrow> string \<Rightarrow> cell" where
  "row_get r c = (case map_of r c of None \<Rightarrow> NaN | Some v \<Rightarrow> v)"

record csv_table =
  header :: "string list"
  body :: "row list"

datatype dtype = Object | Numeric

record series =
  s_dtype :: dtype
  s_values :: "(nat \<times> cell) list"

record dataframe =
  columns :: "string list"
  dtypes :: "(string \<times> dtype) list"
  rows :: "(nat \<times> row) list"

definition is_Str :: "cell \<Rightarrow> bool" where
  "is_Str v = (case v of Str _ \<Rightarrow> True | _ \<Rightarrow> False)"

definition infer_dtype :: "row list \<Rightarrow> string \<Rightarrow> dtype" where
  "infer_dtype rs c = (if list_ex (\<lambda>r. is_Str (row_get r c)) rs then Object else Numeric)"

definition dtype_of :: "dataframe \<Rightarrow> string \<Rightarrow> dtype" where
  "dtype_of df c = (case map_of (dtypes df) c of None \<Rightarrow> Numeric | Some d \<Rightarrow> d)"

text \<open>
  \<^verbatim>\<open>df.dropna(inplace=True)\<close>: a row stays when none of the frame's columns is
  missing in it. \<open>has_missing\<close> is the test of one row.
\<close>

definition has_missing :: "string list \<Rightarrow> row \<Rightarrow> bool" where
  "has_missing cols r = list_ex (\<lambda>c. row_get r c = NaN) cols"

definition dropna :: "dataframe \<Rightarrow> dataframe" where
  "dropna df = df\<lparr>rows := filter (\<lambda>(i, r). \<not> has_missing (columns df) r) (rows df)\<rparr>"

text \<open>\<^verbatim>\<open>df[c]\<close>: the column with the frame's index, \<^verbatim>\<open>KeyError\<close> when absent.\<close>

definition getitem :: "dataframe \<Rightarrow> string \<Rightarrow> error + series" where
  "getitem df c =
     (if c \<in> set (columns df)
      then Inr \<lparr>s_dtype = dtype_of df c, s_values = map (\<lambda>(i, r). (i, row_get r c)) (rows df)\<rparr>
      else Inl KeyError)"

text \<open>\<^verbatim>\<open>df[df[c] == v]\<close>: the rows whose column \<open>c\<close> holds \<open>v\<close>, with their labels.\<close>

definition where_eq :: "dataframe \<Rightarrow> string \<Rightarrow> cell \<Rightarrow> error + dataframe" where
  "where_eq df c v =
     (if c \<in> set (columns df)
      then Inr (df\<lparr>rows := filter (\<lambda>(i, r). row_get r c = v) (rows df)\<rparr>)
      else Inl KeyError)"

text \<open>
  \<^verbatim>\<open>df[c] = s\<close>: the values of \<open>s\<close> are aligned on the index labels of the frame;
  a label that \<open>s\<close> does not have gets a missing value.
\<close>

definition setitem :: "dataframe \<Rightarrow> string \<Rightarrow> series \<Rightarrow> dataframe" where
  "setitem df c s =
     df\<lparr>columns := (if c \<in> set (columns df) then columns df else columns df @ [c]),
        dtypes := AList.update c (s_dtype s) (dtypes df),
        rows := map (\<lambda>(i, r).
                  (i, AList.update c (case map_of (s_values s) i of None \<Rightarrow> NaN | Some v \<Rightarrow> v) r))
                (rows df)\<rparr>"

text \<open>The \<^verbatim>\<open>.str\<close> accessor exists on columns of texts only.\<close>

definition str_accessor :: "series \<Rightarrow> error + series" where
  "str_accessor s = (if s_dtype s = Object then Inr s else Inl AttributeError)"

definition map_values :: "(cell \<Rightarrow> cell) \<Rightarrow> dtype \<Rightarrow> series \<Rightarrow> series" where
  "map_values f d s = \<lparr>s_dtype = d, s_values = map (\<lambda>(i, v). (i, f v)) (s_values s)\<rparr>"

subsection \<open>The regular expression \<^verbatim>\<open>(\d+)\<close>\<close>

definition is_digit :: "char \<Rightarrow> bool" where
  "is_digit c \<longleftrightarrow> c \<in> set ''0123456789''"

definition digit_val :: "char \<Rightarrow> nat" where
  "digit_val c = length (takeWhile (\<lambda>d. d \<noteq> c) ''0123456789'')"

definition decimal :: "string \<Rightarrow> int" where
  "decimal s = foldl (\<lambda>n c. 10 * n + int (digit_val c)) 0 s"

text \<open>The leftmost, longest run of digits: what \<^verbatim>\<open>re.search\<close> captures.\<close>

definition first_digits :: "string \<Rightarrow> string" where
  "first_digits s = takeWhile is_digit (dropWhile (\<lambda>c. \<not> is_digit c) s)"

fun str_extract :: "cell \<Rightarrow> cell" where
  "str_extract (Str s) = (if first_digits s = [] then NaN else Str (first_digits s))"
| "str_extract _ = NaN"

text \<open>\<^verbatim>\<open>astype(float)\<close>, applied here to captured digit runs and missing values only.\<close>

fun astype_float :: "cell \<Rightarrow> cell" where
  "astype_float (Str s) = Num (decimal s)"
| "astype_float v = v"

subsection \<open>\<^verbatim>\<open>str.split(',')\<close> and \<^verbatim>\<open>str[0]\<close>\<close>

fun split_on :: "char \<Rightarrow> string \<Rightarrow> string list" where
  "split_on d [] = [[]]"
| "split_on d (c # cs) =
     (if c = d then [] # split_on d cs
      else (case split_on d cs of [] \<Rightarrow> [[c]] | w # ws \<Rightarrow> (c # w) # ws))"

fun str_split :: "cell \<Rightarrow> cell" where
  "str_split (Str s) = Lst (split_on CHR '','' s)"
| "str_split _ = NaN"

fun str_get0 :: "cell \<Rightarrow> cell" where
  "str_get0 (Lst xs) = (case xs of [] \<Rightarrow> NaN | x # _ \<Rightarrow> Str x)"
| "str_get0 (Str s) = (case s of [] \<Rightarrow> NaN | c # _ \<Rightarrow> Str [c])"
| "str_get0 _ = NaN"

subsection \<open>\<^verbatim>\<open>pd.to_datetime(..., format='mixed').dt.year\<close>\<close>

text \<open>
  The date parser of the library is a parameter: it gives the calendar year of a present
  value, or \<open>None\<close> when it rejects the value. \<^verbatim>\<open>to_datetime\<close> is called with its
  default \<^verbatim>\<open>errors='raise'\<close>, so one rejected value raises \<^verbatim>\<open>ValueError\<close> for the
  whole column; a missing value becomes a missing date.
\<close>

type_synonym parser = "cell \<Rightarrow> int option"

definition unparsable :: "parser \<Rightarrow> cell \<Rightarrow> bool" where
  "unparsable parse v \<longleftrightarrow> v \<noteq> NaN \<and> parse v = None"

definition year_cell :: "parser \<Rightarrow> cell \<Rightarrow> cell" where
  "year_cell parse v = (if v = NaN then NaN else case parse v of None \<Rightarrow> NaN | Some y \<Rightarrow> Num y)"

definition to_datetime_year :: "parser \<Rightarrow> series \<Rightarrow> error + series" where
  "to_datetime_year parse s =
     (if list_ex (\<lambda>(i, v). unparsable parse v) (s_values s) then Inl ValueError
      else Inr (map_values (year_cell parse) Numeric s))"

section \<open>Figures, decks and files\<close>

datatype chart_data =
  Col series
  | ValueCounts chart_data
  | NLargest nat chart_data
  | SortIndex chart_data
  | Frame dataframe

datatype plot =
  Barplot chart_data | Lineplot chart_data | Histplot chart_data
  | Scatterplot chart_data | Countplot chart_data

record figure =
  fig_plot :: "plot option"
  fig_title :: string
  fig_size :: "nat \<times> nat"

type_synonym rgb = "nat \<times> nat \<times> nat"

definition DARK_BLUE :: rgb where "DARK_BLUE = (0, 32, 96)"
definition LIGHT_BLUE :: rgb where "LIGHT_BLUE = (197, 217, 241)"

text \<open>Lengths are English Metric Units, as \<^verbatim>\<open>pptx.util\<close> stores them.\<close>

definition Pt :: "nat \<Rightarrow> nat" where "Pt n = n * 12700"

definition Inches :: "nat \<Rightarrow> nat \<Rightarrow> nat" where
  \<comment> \<open>\<open>Inches num den\<close> is \<^verbatim>\<open>Inches(num / den)\<close>\<close>
  "Inches num den = (num * 914400) div den"

record font =
  font_name :: "string option"
  font_size :: "nat option"
  font_color :: "rgb option"

definition no_font :: font where
  "no_font = \<lparr>font_name = None, font_size = None, font_color = None\<rparr>"

datatype ph_type =
  TITLE | CENTER_TITLE | SUBTITLE | BODY | OBJECT | PICTURE | DATE | FOOTER | SLIDE_NUMBER

record placeholder =
  ph_idx :: nat
  ph_type :: ph_type
  ph_text :: string
  ph_font :: font

record picture =
  pic_file :: string
  pic_image :: figure
  pic_left :: nat
  pic_top :: nat
  pic_width :: nat
  pic_height :: nat

record slide =
  slide_layout :: nat
  placeholders :: "placeholder list"
  pictures :: "picture list"

record layout =
  layout_placeholders :: "placeholder list"

record master =
  background_fill :: "rgb option"
  slide_layouts :: "layout list"

record presentation =
  slides :: "slide list"
  slide_master :: master

datatype fentry = Csv csv_table | Png figure | Pptx presentation | Other

text \<open>
  The file system is a table from path strings to file contents; a directory is the set of
  the paths \<open>dir/name\<close>. Writing replaces an entry or adds one.
\<close>

record world =
  fs :: "(string \<times> fentry) list"
  logs :: "(level \<times> string) list"

definition logger :: "level \<Rightarrow> string \<Rightarrow> world \<Rightarrow> world" where
  "logger l msg w = w\<lparr>logs := logs w @ [(l, msg)]\<rparr>"

definition write_file :: "string \<Rightarrow> fentry \<Rightarrow> world \<Rightarrow> world" where
  "write_file p f w = w\<lparr>fs := AList.update p f (fs w)\<rparr>"

definition seq :: "'a outcome \<times> world \<Rightarrow> ('a \<Rightarrow> world \<Rightarrow> 'b outcome \<times> world) \<Rightarrow> 'b outcome \<times> world" where
  "seq m f = (case m of (Returned x, w) \<Rightarrow> f x w
                      | (Raised e, w) \<Rightarrow> (Raised e, w)
                      | (Exited n, w) \<Rightarrow> (Exited n, w))"

definition lift :: "error + 'a \<Rightarrow> world \<Rightarrow> 'a outcome \<times> world" where
  "lift m w = (case m of Inl e \<Rightarrow> (Raised e, w) | Inr x \<Rightarrow> (Returned x, w))"

section \<open>\<^verbatim>\<open>load_and_clean_data\<close>\<close>

text \<open>
  \<^verbatim>\<open>pd.read_csv\<close>: the table of the file with the labels \<open>0, 1, 2, \<dots>\<close>; a column is
  a column of texts when one of its cells is a text.
\<close>

definition read_csv :: "(string \<times> fentry) list \<Rightarrow> string \<Rightarrow> error + dataframe" where
  "read_csv files file_path =
     (case map_of files file_path of
        None \<Rightarrow> Inl FileNotFoundError
      | Some (Csv t) \<Rightarrow>
          Inr \<lparr>columns = header t,
               dtypes = map (\<lambda>c. (c, infer_dtype (body t) c)) (header t),
               rows = enumerate 0 (body t)\<rparr>
      | Some _ \<Rightarrow> Inl ParserError)"

text \<open>Line 32: the minutes of the movie rows.\<close>

definition derive_duration_min :: "dataframe \<Rightarrow> error + dataframe" where
  "derive_duration_min df =
     raise_bind (where_eq df ''type'' (Str ''Movie'')) (\<lambda>movies.
     raise_bind (getitem movies ''duration'') (\<lambda>d.
     raise_bind (str_accessor d) (\<lambda>d.
       Inr (setitem df ''duration_min''
              (map_values astype_float Numeric (map_values str_extract Object d))))))"

text \<open>Line 35: the first genre.\<close>

definition derive_genre :: "dataframe \<Rightarrow> error + dataframe" where
  "derive_genre df =
     raise_bind (getitem df ''listed_in'') (\<lambda>l.
     raise_bind (str_accessor l) (\<lambda>l.
     raise_bind (str_accessor (map_values str_split Object l)) (\<lambda>parts.
       Inr (setitem df ''genre'' (map_values str_get0 Object parts)))))"

text \<open>Line 38: the year of the date.\<close>

definition derive_year_added :: "parser \<Rightarrow> dataframe \<Rightarrow> error + dataframe" where
  "derive_year_added parse df =
     raise_bind (getitem df ''date_added'') (\<lambda>d.
     raise_bind (to_datetime_year parse d) (\<lambda>y.
       Inr (setitem df ''year_added'' y)))"

text \<open>Lines 27 to 38, the body of the \<^verbatim>\<open>try\<close>.\<close>

definition load_body :: "parser \<Rightarrow> (string \<times> fentry) list \<Rightarrow> string \<Rightarrow> error + dataframe" where
  "load_body parse files file_path =
     raise_bind (read_csv files file_path) (\<lambda>df.
     raise_bind (derive_duration_min (dropna df)) (\<lambda>df.
     raise_bind (derive_genre df) (\<lambda>df.
       derive_year_added parse df)))"

definition strerror :: "string \<Rightarrow> string" where
  "strerror file_path = ''[Errno 2] No such file or directory: '' @ [CHR 0x27] @ file_path @ [CHR 0x27]"

definition load_and_clean_data :: "parser \<Rightarrow> string \<Rightarrow> world \<Rightarrow> dataframe outcome \<times> world" where
  "load_and_clean_data parse file_path w =
     (case load_body parse (fs w) file_path of
        Inr df \<Rightarrow> (Returned df, logger INFO ''Data loaded and cleaned successfully.'' w)
      | Inl e \<Rightarrow>
          (if e = FileNotFoundError
           then (Exited 1, logger ERROR (''Error loading data: '' @ strerror file_path) w)
           else (Raised e, w)))"

section \<open>\<^verbatim>\<open>create_chart\<close>\<close>

text \<open>
  The data handed to the plotting library is kept as the expression that produced it. The
  \<^verbatim>\<open>if\<close>/\<^verbatim>\<open>elif\<close> chain of lines 59 to 68 has no \<^verbatim>\<open>else\<close>: a kind that none
  of the five tests matches draws nothing. The scatter and count branches read named
  columns of a frame.
\<close>

definition draw :: "string \<Rightarrow> chart_data \<Rightarrow> error + plot option" where
  "draw kind data =
     (if kind = ''bar'' then Inr (Some (Barplot data))
      else if kind = ''line'' then Inr (Some (Lineplot data))
      else if kind = ''hist'' then Inr (Some (Histplot data))
      else if kind = ''scatter'' then
        (case data of
           Frame df \<Rightarrow>
             (if ''release_year'' \<in> set (columns df) \<and> ''duration_min'' \<in> set (columns df)
              then Inr (Some (Scatterplot data)) else Inl ValueError)
         | _ \<Rightarrow> Inl ValueError)
      else if kind = ''count'' then
        (case data of
           Frame df \<Rightarrow>
             (if ''rating'' \<in> set (columns df) then Inr (Some (Countplot data)) else Inl KeyError)
         | _ \<Rightarrow> Inl KeyError)
      else Inr None)"

definition joinpath :: "string \<Rightarrow> string \<Rightarrow> string" where
  \<comment> \<open>\<^verbatim>\<open>Path(d) / name\<close>: an absolute right operand replaces the left one\<close>
  "joinpath d name = (case name of CHR ''/'' # _ \<Rightarrow> name | _ \<Rightarrow> d @ ''/'' @ name)"

definition create_chart ::
  "chart_data \<Rightarrow> string \<Rightarrow> string \<Rightarrow> string \<Rightarrow> nat \<times> nat \<Rightarrow> world \<Rightarrow> unit outcome \<times> world" where
  "create_chart data title filename kind figsize w =
     (case draw kind data of
        Inl e \<Rightarrow> (Raised e, w)
      | Inr p \<Rightarrow>
          (Returned (),
           logger INFO (''Saved chart: '' @ filename)
             (write_file (joinpath ''img/slides'' filename)
                (Png \<lparr>fig_plot = p, fig_title = title, fig_size = figsize\<rparr>) w)))"

section \<open>The deck builders\<close>

definition cloneable :: "placeholder \<Rightarrow> bool" where
  "cloneable p \<longleftrightarrow> ph_type p \<notin> {DATE, FOOTER, SLIDE_NUMBER}"

definition clone_placeholder :: "placeholder \<Rightarrow> placeholder" where
  "clone_placeholder p = p\<lparr>ph_text := [], ph_font := no_font\<rparr>"

text \<open>
  \<^verbatim>\<open>slides.add_slide(layout)\<close> gives the new slide a copy of every placeholder of the
  layout but the date, the footer and the slide number.
\<close>

definition new_slide :: "nat \<Rightarrow> layout \<Rightarrow> slide" where
  "new_slide k lay =
     \<lparr>slide_layout = k,
      placeholders = map clone_placeholder (filter cloneable (layout_placeholders lay)),
      pictures = []\<rparr>"

definition with_slide :: "presentation \<Rightarrow> slide \<Rightarrow> presentation" where
  "with_slide prs s = prs\<lparr>slides := slides prs @ [s]\<rparr>"

text \<open>
  \<^verbatim>\<open>slide.shapes.title\<close> is the placeholder with idx 0, or \<^verbatim>\<open>None\<close>;
  \<^verbatim>\<open>slide.placeholders[k]\<close> is the placeholder with idx \<open>k\<close>, or a \<^verbatim>\<open>KeyError\<close>.
\<close>

definition find_ph :: "nat \<Rightarrow> placeholder list \<Rightarrow> placeholder option" where
  "find_ph k phs = find (\<lambda>p. ph_idx p = k) phs"

fun update_ph :: "nat \<Rightarrow> (placeholder \<Rightarrow> placeholder) \<Rightarrow> placeholder list \<Rightarrow> placeholder list" where
  "update_ph k f [] = []"
| "update_ph k f (p # ps) = (if ph_idx p = k then f p # ps else p # update_ph k f ps)"

definition set_text :: "nat \<Rightarrow> string \<Rightarrow> slide \<Rightarrow> slide" where
  "set_text k t s = s\<lparr>placeholders := update_ph k (\<lambda>p. p\<lparr>ph_text := t\<rparr>) (placeholders s)\<rparr>"

definition set_font_color :: "nat \<Rightarrow> rgb \<Rightarrow> slide \<Rightarrow> slide" where
  "set_font_color k c s =
     s\<lparr>placeholders := update_ph k (\<lambda>p. p\<lparr>ph_font := (ph_font p)\<lparr>font_color := Some c\<rparr>\<rparr>) (placeholders s)\<rparr>"

definition set_font_size :: "nat \<Rightarrow> nat \<Rightarrow> slide \<Rightarrow> slide" where
  "set_font_size k n s =
     s\<lparr>placeholders := update_ph k (\<lambda>p. p\<lparr>ph_font := (ph_font p)\<lparr>font_size := Some n\<rparr>\<rparr>) (placeholders s)\<rparr>"

definition title_text :: "slide \<Rightarrow> string option" where
  "title_text s = map_option ph_text (find_ph 0 (placeholders s))"

definition placeholder_text :: "nat \<Rightarrow> slide \<Rightarrow> string option" where
  "placeholder_text k s = map_option ph_text (find_ph k (placeholders s))"

text \<open>
  The builders change the deck in place, so an exception leaves the deck as it is at that
  line: the result is the error, if any, with the deck.
\<close>

definition add_title_slide :: "presentation \<Rightarrow> string \<Rightarrow> string \<Rightarrow> error option \<times> presentation" where
  "add_title_slide prs title subtitle =
     (case slide_layouts (slide_master prs) of
        [] \<Rightarrow> (Some IndexError, prs)
      | lay # _ \<Rightarrow>
          (let slide = new_slide 0 lay in
           case find_ph 0 (placeholders slide) of
             None \<Rightarrow> (Some AttributeError, with_slide prs slide)
           | Some _ \<Rightarrow>
               (let slide = set_text 0 title slide in
                case find_ph 1 (placeholders slide) of
                  None \<Rightarrow> (Some KeyError, with_slide prs slide)
                | Some _ \<Rightarrow>
                    (let slide = set_text 1 subtitle slide;
                         slide = set_font_color 0 DARK_BLUE slide;
                         slide = set_font_size 0 (Pt 44) slide
                     in (None, with_slide prs slide)))))"

definition add_picture :: "(string \<times> fentry) list \<Rightarrow> string \<Rightarrow> slide \<Rightarrow> error + slide" where
  "add_picture files image_path s =
     (case map_of files image_path of
        None \<Rightarrow> Inl FileNotFoundError
      | Some (Png img) \<Rightarrow>
          Inr (s\<lparr>pictures := pictures s @
                 [\<lparr>pic_file = image_path, pic_image = img,
                   pic_left = Inches 1 1, pic_top = Inches 3 2,
                   pic_width = Inches 8 1, pic_height = Inches 11 2\<rparr>]\<rparr>)
      | Some _ \<Rightarrow> Inl UnidentifiedImageError)"

definition add_content_slide ::
  "(string \<times> fentry) list \<Rightarrow> presentation \<Rightarrow> string \<Rightarrow> string \<Rightarrow> error option \<times> presentation" where
  "add_content_slide files prs title image_path =
     (if length (slide_layouts (slide_master prs)) \<le> 5 then (Some IndexError, prs)
      else
        (let slide = new_slide 5 (slide_layouts (slide_master prs) ! 5) in
         case find_ph 0 (placeholders slide) of
           None \<Rightarrow> (Some AttributeError, with_slide prs slide)
         | Some _ \<Rightarrow>
             (let slide = set_text 0 title slide in
              case add_picture files image_path slide of
                Inl e \<Rightarrow> (Some e, with_slide prs slide)
              | Inr slide \<Rightarrow>
                  (let slide = set_font_color 0 DARK_BLUE slide;
                       slide = set_font_size 0 (Pt 32) slide
                   in (None, with_slide prs slide)))))"

text \<open>
  \<^verbatim>\<open>slide_layouts[l].placeholders[p].text_frame.paragraphs[0].font\<close>: both subscripts
  are positions, an \<^verbatim>\<open>IndexError\<close> out of range.
\<close>

definition set_layout_font :: "nat \<Rightarrow> nat \<Rightarrow> font \<Rightarrow> master \<Rightarrow> error + master" where
  "set_layout_font l p f m =
     (if l < length (slide_layouts m) then
        (let lay = slide_layouts m ! l in
         if p < length (layout_placeholders lay) then
           Inr (m\<lparr>slide_layouts := (slide_layouts m)
                  [l := lay\<lparr>layout_placeholders := (layout_placeholders lay)
                         [p := (layout_placeholders lay ! p)\<lparr>ph_font := f\<rparr>]\<rparr>]\<rparr>)
         else Inl IndexError)
      else Inl IndexError)"

definition customize_slide_master :: "presentation \<Rightarrow> error option \<times> presentation" where
  "customize_slide_master prs =
     (let m1 = (slide_master prs)\<lparr>background_fill := Some LIGHT_BLUE\<rparr> in
      case set_layout_font 0 0
             \<lparr>font_name = Some ''Arial'', font_size = Some (Pt 44), font_color = Some DARK_BLUE\<rparr> m1 of
        Inl e \<Rightarrow> (Some e, prs\<lparr>slide_master := m1\<rparr>)
      | Inr m2 \<Rightarrow>
          (case set_layout_font 1 1
                  \<lparr>font_name = Some ''Arial'', font_size = Some (Pt 18), font_color = Some (0, 0, 0)\<rparr> m2 of
             Inl e \<Rightarrow> (Some e, prs\<lparr>slide_master := m2\<rparr>)
           | Inr m3 \<Rightarrow> (None, prs\<lparr>slide_master := m3\<rparr>)))"

section \<open>\<^verbatim>\<open>main\<close>\<close>

subsection \<open>Paths and titles\<close>

definition basename :: "string \<Rightarrow> string" where
  "basename p = rev (takeWhile (\<lambda>c. c \<noteq> CHR ''/'') (rev p))"

definition stem :: "string \<Rightarrow> string" where
  \<comment> \<open>the name without its last suffix; a leading or a trailing dot starts no suffix\<close>
  "stem p =
     (let name = basename p; k = length (takeWhile (\<lambda>c. c \<noteq> CHR ''.'') (rev name))
      in if CHR ''.'' \<in> set name \<and> 0 < k \<and> k + 1 < length name
         then take (length name - 1 - k) name else name)"

definition replace_char :: "char \<Rightarrow> char \<Rightarrow> string \<Rightarrow> string" where
  "replace_char a b s = map (\<lambda>c. if c = a then b else c) s"

definition lowercase :: string where "lowercase = ''abcdefghijklmnopqrstuvwxyz''"
definition uppercase :: string where "uppercase = ''ABCDEFGHIJKLMNOPQRSTUVWXYZ''"

definition to_upper :: "char \<Rightarrow> char" where
  "to_upper c = (case map_of (zip lowercase uppercase) c of None \<Rightarrow> c | Some u \<Rightarrow> u)"

definition to_lower :: "char \<Rightarrow> char" where
  "to_lower c = (case map_of (zip uppercase lowercase) c of None \<Rightarrow> c | Some l \<Rightarrow> l)"

text \<open>\<^verbatim>\<open>str.title()\<close> on ASCII: the flag says whether the previous character is a letter.\<close>

fun title_from :: "bool \<Rightarrow> string \<Rightarrow> string" where
  "title_from prev [] = []"
| "title_from prev (c # cs) =
     (if c \<in> set lowercase then (if prev then c else to_upper c) # title_from True cs
      else if c \<in> set uppercase then (if prev then to_lower c else c) # title_from True cs
      else c # title_from False cs)"

definition slide_title_of :: "string \<Rightarrow> string" where
  "slide_title_of img_path = title_from False (replace_char CHR ''_'' CHR '' '' (stem img_path))"

text \<open>
  \<^verbatim>\<open>img_dir.iterdir()\<close>: the entries of the directory in the order of the file system,
  which is the order of a ranking of the paths that the program does not control.
\<close>

definition in_dir :: "string \<Rightarrow> string \<Rightarrow> bool" where
  "in_dir d p \<longleftrightarrow>
     take (length d + 1) p = d @ ''/'' \<and> drop (length d + 1) p \<noteq> []
     \<and> CHR ''/'' \<notin> set (drop (length d + 1) p)"

definition iterdir :: "(string \<Rightarrow> nat) \<Rightarrow> string \<Rightarrow> world \<Rightarrow> string list" where
  "iterdir rank d w = sort_key rank (filter (in_dir d) (map fst (fs w)))"

subsection \<open>Lines 152 to 161: the seven charts\<close>

definition value_counts :: "dataframe \<Rightarrow> string \<Rightarrow> error + chart_data" where
  "value_counts df c = raise_bind (getitem df c) (\<lambda>s. Inr (ValueCounts (Col s)))"

definition movie_durations :: "dataframe \<Rightarrow> error + chart_data" where
  "movie_durations df =
     raise_bind (where_eq df ''type'' (Str ''Movie'')) (\<lambda>movies.
     raise_bind (getitem movies ''duration_min'') (\<lambda>s. Inr (Col s)))"

definition movies_frame :: "dataframe \<Rightarrow> error + chart_data" where
  "movies_frame df = raise_bind (where_eq df ''type'' (Str ''Movie'')) (\<lambda>movies. Inr (Frame movies))"

definition generate_charts :: "dataframe \<Rightarrow> world \<Rightarrow> unit outcome \<times> world" where
  "generate_charts df w =
     seq (lift (value_counts df ''type'') w) (\<lambda>d w.
     seq (create_chart d ''Movies vs. TV Shows'' ''content_types.png'' ''bar'' (10, 6) w) (\<lambda>_ w.
     seq (lift (raise_bind (value_counts df ''country'') (\<lambda>d. Inr (NLargest 10 d))) w) (\<lambda>d w.
     seq (create_chart d ''Top 10 Countries Producing Netflix Content'' ''top_countries.png'' ''bar'' (10, 6) w) (\<lambda>_ w.
     seq (lift (raise_bind (value_counts df ''year_added'') (\<lambda>d. Inr (SortIndex d))) w) (\<lambda>d w.
     seq (create_chart d ''Content Added by Year'' ''content_by_year.png'' ''line'' (10, 6) w) (\<lambda>_ w.
     seq (lift (raise_bind (value_counts df ''genre'') (\<lambda>d. Inr (NLargest 10 d))) w) (\<lambda>d w.
     seq (create_chart d ''Top 10 Genres on Netflix'' ''top_genres.png'' ''bar'' (10, 6) w) (\<lambda>_ w.
     seq (lift (movie_durations df) w) (\<lambda>d w.
     seq (create_chart d ''Distribution of Movie Durations'' ''movie_duration_dist.png'' ''hist'' (10, 6) w) (\<lambda>_ w.
     seq (lift (movies_frame df) w) (\<lambda>d w.
     seq (create_chart d ''Movie Duration vs. Release Year'' ''duration_vs_year.png'' ''scatter'' (10, 6) w) (\<lambda>_ w.
     create_chart (Frame df) ''Distribution of Content Ratings'' ''rating_distribution.png'' ''count'' (10, 6) w))))))))))))"

subsection \<open>Lines 164 to 171: the deck\<close>

fun add_content_slides ::
  "(string \<times> fentry) list \<Rightarrow> string list \<Rightarrow> presentation \<Rightarrow> error option \<times> presentation" where
  "add_content_slides files [] prs = (None, prs)"
| "add_content_slides files (img_path # rest) prs =
     (case add_content_slide files prs (slide_title_of img_path) img_path of
        (Some e, prs') \<Rightarrow> (Some e, prs')
      | (None, prs') \<Rightarrow> add_content_slides files rest prs')"

definition build_deck :: "(string \<Rightarrow> nat) \<Rightarrow> presentation \<Rightarrow> world \<Rightarrow> error option \<times> presentation" where
  "build_deck rank new_prs w =
     (case add_title_slide new_prs ''Netflix Content Analysis''
             ''Insights from the Netflix Movies and TV Shows Dataset'' of
        (Some e, prs) \<Rightarrow> (Some e, prs)
      | (None, prs) \<Rightarrow> add_content_slides (fs w) (iterdir rank ''img/slides'' w) prs)"

definition run :: "error option \<times> 'a \<Rightarrow> world \<Rightarrow> 'a outcome \<times> world" where
  "run m w = (case m of (Some e, _) \<Rightarrow> (Raised e, w) | (None, x) \<Rightarrow> (Returned x, w))"

text \<open>
  \<open>new_prs\<close> is the deck that \<^verbatim>\<open>Presentation()\<close> opens from the template of the
  library, \<open>parse\<close> the date parser and \<open>rank\<close> the enumeration order of the file system.
\<close>

definition main :: "parser \<Rightarrow> (string \<Rightarrow> nat) \<Rightarrow> presentation \<Rightarrow> world \<Rightarrow> unit outcome \<times> world" where
  "main parse rank new_prs w =
     seq (load_and_clean_data parse ''./data/netflix_titles.csv''
            (logger INFO ''Starting Netflix content analysis...'' w)) (\<lambda>df w.
     seq (generate_charts df w) (\<lambda>_ w.
     seq (run (build_deck rank new_prs w) w) (\<lambda>prs w.
     seq (run (customize_slide_master prs)
            (logger INFO ''Presentation saved as Netflix_Content_Analysis.pptx''
               (write_file ''Netflix_Content_Analysis.pptx'' (Pptx prs) w))) (\<lambda>prs w.
       (Returned (),
        logger INFO ''Themed presentation saved as Netflix_Content_Analysis_Themed.pptx''
          (write_file ''Netflix_Content_Analysis_Themed.pptx'' (Pptx prs) w))))))"

section \<open>Row-wise reading of the loader\<close>

text \<open>
  What lines 32 to 38 compute for one row: the three derived cells, written one after
  the other into the row. The lemmas below show that the column-wise code does this to
  every row that \<open>dropna\<close> keeps.
\<close>

definition row_wise :: "string \<Rightarrow> (nat \<times> row \<Rightarrow> cell) \<Rightarrow> (nat \<times> row) list \<Rightarrow> (nat \<times> row) list" where
  "row_wise c g xs = map (\<lambda>(i, r). (i, AList.update c (g (i, r)) r)) xs"

definition duration_cell :: "row \<Rightarrow> cell" where
  "duration_cell r =
     (if row_get r ''type'' = Str ''Movie''
      then astype_float (str_extract (row_get r ''duration'')) else NaN)"

definition genre_cell :: "row \<Rightarrow> cell" where
  "genre_cell r = str_get0 (str_split (row_get r ''listed_in''))"

definition derive_row :: "parser \<Rightarrow> row \<Rightarrow> row" where
  "derive_row parse r =
     (let r1 = AList.update ''duration_min'' (duration_cell r) r;
          r2 = AList.update ''genre'' (genre_cell r1) r1
      in AList.update ''year_added'' (year_cell parse (row_get r2 ''date_added'')) r2)"

section \<open>A sample run\<close>

text \<open>
  Five rows, the third without a country. \<open>sample_parse\<close> reads the four date texts of
  the sample as the date parser of the library does and rejects every other value.
\<close>

definition sample_table :: csv_table where
  "sample_table = \<lparr>header = [''type'', ''duration'', ''listed_in'', ''date_added'', ''country'', ''rating'', ''release_year''],
     body = [
       [(''type'', Str ''Movie''), (''duration'', Str ''90 min''), (''listed_in'', Str ''Dramas, International Movies''),
        (''date_added'', Str ''September 25, 2021''), (''country'', Str ''United States''), (''rating'', Str ''PG-13''), (''release_year'', Num 2020)],
       [(''type'', Str ''TV Show''), (''duration'', Str ''2 Seasons''), (''listed_in'', Str ''Crime TV Shows, TV Dramas''),
        (''date_added'', Str ''September 24, 2021''), (''country'', Str ''South Africa''), (''rating'', Str ''TV-MA''), (''release_year'', Num 2021)],
       [(''type'', Str ''Movie''), (''duration'', Str ''104 min''), (''listed_in'', Str ''Comedies''),
        (''date_added'', Str ''August 4, 2017''), (''country'', NaN), (''rating'', Str ''PG''), (''release_year'', Num 2016)],
       [(''type'', Str ''Movie''), (''duration'', Str ''127 min''), (''listed_in'', Str ''Documentaries''),
        (''date_added'', Str ''1-Jan-19''), (''country'', Str ''India''), (''rating'', Str ''TV-14''), (''release_year'', Num 2018)],
       [(''type'', Str ''TV Show''), (''duration'', Str ''1 Season''), (''listed_in'', Str ''Kids TV''),
        (''date_added'', Str ''August 4, 2017''), (''country'', Str ''Japan''), (''rating'', Str ''TV-Y''), (''release_year'', Num 2017)]]\<rparr>"

definition sample_parse :: parser where
  "sample_parse v = (case v of Str s \<Rightarrow> map_of [(''September 25, 2021'', 2021), (''September 24, 2021'', 2021),
      (''August 4, 2017'', 2017), (''1-Jan-19'', 2019)] s | _ \<Rightarrow> None)"

definition sample_world :: world where
  "sample_world = \<lparr>fs = [(''./data/netflix_titles.csv'', Csv sample_table)], logs = []\<rparr>"

definition sample_path :: string where "sample_path = ''./data/netflix_titles.csv''"

definition sample_df :: dataframe where
  "sample_df = result (fst (load_and_clean_data sample_parse sample_path sample_world))"

text \<open>
  The leading integer of a text, as the specification words it: the digits the text
  begins with, and no number when it begins with something else.
\<close>

definition leading_integer :: "string \<Rightarrow> cell" where
  "leading_integer s =
     (if takeWhile is_digit s = [] then NaN else Num (decimal (takeWhile is_digit s)))"

text \<open>Tables with a duration that does not begin with its number, and with a text that is no date.\<close>

definition odd_table :: csv_table where
  "odd_table = \<lparr>header = [''type'', ''duration'', ''listed_in'', ''date_added''],
     body = [
       [(''type'', Str ''Movie''), (''duration'', Str ''ca. 90 min''), (''listed_in'', Str ''Dramas''),
        (''date_added'', Str ''September 25, 2021'')],
       [(''type'', Str ''Movie''), (''duration'', Str ''unknown''), (''listed_in'', Str ''Comedies''),
        (''date_added'', Str ''August 4, 2017'')]]\<rparr>"

definition odd_world :: world where
  "odd_world = \<lparr>fs = [(sample_path, Csv odd_table)], logs = []\<rparr>"

definition odd_df :: dataframe where
  "odd_df = result (fst (load_and_clean_data sample_parse sample_path odd_world))"

definition bad_date_table :: csv_table where
  "bad_date_table = \<lparr>header = [''type'', ''duration'', ''listed_in'', ''date_added''],
     body = [
       [(''type'', Str ''Movie''), (''duration'', Str ''90 min''), (''listed_in'', Str ''Dramas''),
        (''date_added'', Str ''September 25, 2021'')],
       [(''type'', Str ''TV Show''), (''duration'', Str ''1 Season''), (''listed_in'', Str ''Comedies''),
        (''date_added'', Str ''not a date'')]]\<rparr>"

definition bad_date_world :: world where
  "bad_date_world = \<lparr>fs = [(sample_path, Csv bad_date_table)], logs = []\<rparr>"

definition empty_world :: world where
  "empty_world = \<lparr>fs = [], logs = []\<rparr>"

text \<open>
  A deck with no slide whose eleven layouts carry the placeholders of the default template
  that \<^verbatim>\<open>Presentation()\<close> opens: title slide, title and content, section header, two
  content, comparison, title only, blank, content with caption, picture with caption, and
  the two vertical layouts.
\<close>

definition ph :: "nat \<Rightarrow> ph_type \<Rightarrow> placeholder" where
  "ph k t = \<lparr>ph_idx = k, ph_type = t, ph_text = [], ph_font = no_font\<rparr>"

definition footers :: "placeholder list" where
  "footers = [ph 10 DATE, ph 11 FOOTER, ph 12 SLIDE_NUMBER]"

definition template_deck :: presentation where
  "template_deck =
     \<lparr>slides = [],
      slide_master = \<lparr>background_fill = None, slide_layouts = map (\<lambda>phs. \<lparr>layout_placeholders = phs @ footers\<rparr>)
        [[ph 0 CENTER_TITLE, ph 1 SUBTITLE],
         [ph 0 TITLE, ph 1 OBJECT],
         [ph 0 TITLE, ph 1 BODY],
         [ph 0 TITLE, ph 1 OBJECT, ph 2 OBJECT],
         [ph 0 TITLE, ph 1 BODY, ph 2 OBJECT, ph 3 BODY, ph 4 OBJECT],
         [ph 0 TITLE],
         [],
         [ph 0 TITLE, ph 1 OBJECT, ph 2 BODY],
         [ph 0 TITLE, ph 1 PICTURE, ph 2 BODY],
         [ph 0 TITLE, ph 1 BODY],
         [ph 0 TITLE, ph 1 BODY]]\<rparr>\<rparr>"

text \<open>A column of two durations, to draw.\<close>

definition sample_series :: chart_data where
  "sample_series = Col \<lparr>s_dtype = Numeric, s_values = [(0, Num 90), (3, Num 127)]\<rparr>"

section \<open>Properties of the loader\<close>

lemma row_get_update: "row_get (AList.update c v r) c' = (if c' = c then v else row_get r c')"
  by (simp add: row_get_def update_conv')

lemma map_of_aligned:
  "distinct (map fst xs) \<Longrightarrow> (i, r) \<in> set xs \<Longrightarrow>
   map_of (map (\<lambda>(i, r). (i, g r)) (filter P xs)) i = (if P (i, r) then Some (g r) else None)"
proof (induction xs)
  case Nil
  then show ?case by simp
next
  case (Cons x xs)
  obtain j q where x: "x = (j, q)" by (cases x)
  show ?case
  proof (cases "i = j")
    case True
    with Cons.prems x have "r = q" by (auto simp: image_iff)
    moreover from Cons.prems x True have "i \<notin> fst ` set (filter P xs)" by auto
    then have "map_of (map (\<lambda>(i, r). (i, g r)) (filter P xs)) i = None"
      by (simp add: map_of_eq_None_iff image_image split_def)
    ultimately show ?thesis using x True by simp
  next
    case False
    with Cons x show ?thesis by auto
  qed
qed

lemma rows_setitem_aligned:
  assumes "distinct (map fst (rows df))"
    and "s_values s = map (\<lambda>(i, r). (i, g r)) (filter P (rows df))"
  shows "rows (setitem df c s) = row_wise c (\<lambda>(i, r). if P (i, r) then g r else NaN) (rows df)"
proof -
  have "(case map_of (s_values s) i of None \<Rightarrow> NaN | Some v \<Rightarrow> v) = (if P (i, r) then g r else NaN)"
    if "(i, r) \<in> set (rows df)" for i r
    using map_of_aligned [OF assms(1) that, of g P] assms(2) by simp
  then show ?thesis
    by (auto simp: setitem_def row_wise_def)
qed

lemma map_fst_row_wise: "map fst (row_wise c g xs) = map fst xs"
  by (induction xs) (auto simp: row_wise_def)

lemma rows_derive_duration_min:
  assumes "derive_duration_min df = Inr df'" and "distinct (map fst (rows df))"
  shows "rows df' = row_wise ''duration_min'' (\<lambda>(i, r). duration_cell r) (rows df)"
proof -
  let ?g = "\<lambda>r. astype_float (str_extract (row_get r ''duration''))"
  let ?P = "\<lambda>(i :: nat, r). row_get r ''type'' = Str ''Movie''"
  from assms(1) obtain s where df': "df' = setitem df ''duration_min'' s"
    and s: "s_values s = map (\<lambda>(i, r). (i, ?g r)) (filter ?P (rows df))"
    by (auto simp: derive_duration_min_def raise_bind_def where_eq_def getitem_def
        str_accessor_def map_values_def split_def split: if_splits)
  have "rows df' = row_wise ''duration_min'' (\<lambda>(i, r). if ?P (i, r) then ?g r else NaN) (rows df)"
    unfolding df' by (rule rows_setitem_aligned [OF assms(2) s])
  then show ?thesis
    by (simp add: duration_cell_def split_def row_wise_def)
qed

lemma rows_derive_genre:
  assumes "derive_genre df = Inr df'" and "distinct (map fst (rows df))"
  shows "rows df' = row_wise ''genre'' (\<lambda>(i, r). genre_cell r) (rows df)"
proof -
  let ?g = "\<lambda>r. str_get0 (str_split (row_get r ''listed_in''))"
  let ?P = "\<lambda>(i :: nat, r :: row). True"
  from assms(1) obtain s where df': "df' = setitem df ''genre'' s"
    and s: "s_values s = map (\<lambda>(i, r). (i, ?g r)) (filter ?P (rows df))"
    by (auto simp: derive_genre_def raise_bind_def getitem_def
        str_accessor_def map_values_def split_def split: if_splits)
  have "rows df' = row_wise ''genre'' (\<lambda>(i, r). if ?P (i, r) then ?g r else NaN) (rows df)"
    unfolding df' by (rule rows_setitem_aligned [OF assms(2) s])
  then show ?thesis
    by (simp add: genre_cell_def split_def row_wise_def)
qed

lemma rows_derive_year_added:
  assumes "derive_year_added parse df = Inr df'" and "distinct (map fst (rows df))"
  shows "rows df' = row_wise ''year_added'' (\<lambda>(i, r). year_cell parse (row_get r ''date_added'')) (rows df)"
proof -
  let ?g = "\<lambda>r. year_cell parse (row_get r ''date_added'')"
  let ?P = "\<lambda>(i :: nat, r :: row). True"
  from assms(1) obtain s where df': "df' = setitem df ''year_added'' s"
    and s: "s_values s = map (\<lambda>(i, r). (i, ?g r)) (filter ?P (rows df))"
    by (auto simp: derive_year_added_def raise_bind_def getitem_def to_datetime_year_def
        map_values_def split_def split: if_splits)
  have "rows df' = row_wise ''year_added'' (\<lambda>(i, r). if ?P (i, r) then ?g r else NaN) (rows df)"
    unfolding df' by (rule rows_setitem_aligned [OF assms(2) s])
  then show ?thesis
    by (simp add: split_def row_wise_def)
qed

lemma dates_parse_derive_year_added:
  assumes "derive_year_added parse df = Inr df'" and "(i, r) \<in> set (rows df)"
  shows "\<not> unparsable parse (row_get r ''date_added'')"
  using assms
  by (auto simp: derive_year_added_def raise_bind_def getitem_def to_datetime_year_def
      list_ex_iff split: if_splits)

lemma derive_year_added_raises:
  assumes "(i, r) \<in> set (rows df)" and "unparsable parse (row_get r ''date_added'')"
    and "''date_added'' \<in> set (columns df)"
  shows "derive_year_added parse df = Inl ValueError"
  using assms
  by (force simp: derive_year_added_def raise_bind_def getitem_def to_datetime_year_def
      list_ex_iff)

lemma rows_read_csv:
  "read_csv files p = Inr df \<Longrightarrow> \<exists>t. map_of files p = Some (Csv t) \<and>
     columns df = header t \<and> rows df = enumerate 0 (body t)"
  by (auto simp: read_csv_def split: option.splits fentry.splits)

lemma rows_load_body:
  assumes "load_body parse files p = Inr df" and "map_of files p = Some (Csv t)"
  shows "rows df = map (\<lambda>(i, r). (i, derive_row parse r))
           (filter (\<lambda>(i, r). \<not> has_missing (header t) r) (enumerate 0 (body t)))"
proof -
  from assms(1) obtain df0 df1 df2 where
    r: "read_csv files p = Inr df0"
    and d1: "derive_duration_min (dropna df0) = Inr df1"
    and d2: "derive_genre df1 = Inr df2"
    and d3: "derive_year_added parse df2 = Inr df"
    by (auto simp: load_body_def raise_bind_def split: sum.splits)
  from r assms(2) have df0: "columns df0 = header t" "rows df0 = enumerate 0 (body t)"
    by (auto dest: rows_read_csv)
  let ?kept = "filter (\<lambda>(i, r). \<not> has_missing (header t) r) (enumerate 0 (body t))"
  have k: "rows (dropna df0) = ?kept"
    by (simp add: dropna_def df0)
  have dist: "distinct (map fst ?kept)"
    by (rule distinct_map_filter) simp
  have r1: "rows df1 = row_wise ''duration_min'' (\<lambda>(i, r). duration_cell r) ?kept"
    using rows_derive_duration_min [OF d1] dist k by simp
  have r2: "rows df2 = row_wise ''genre'' (\<lambda>(i, r). genre_cell r) (rows df1)"
    using rows_derive_genre [OF d2] dist r1 by (simp add: map_fst_row_wise)
  have r3: "rows df = row_wise ''year_added'' (\<lambda>(i, r). year_cell parse (row_get r ''date_added'')) (rows df2)"
    using rows_derive_year_added [OF d3] dist r1 r2 by (simp add: map_fst_row_wise)
  show ?thesis
    unfolding r3 r2 r1
    by (simp add: row_wise_def derive_row_def split_def Let_def)
qed

lemma row_get_derive_row:
  "row_get (derive_row parse r) c =
     (if c = ''year_added'' then year_cell parse (row_get r ''date_added'')
      else if c = ''genre'' then genre_cell r
      else if c = ''duration_min'' then duration_cell r
      else row_get r c)"
  by (simp add: derive_row_def Let_def row_get_update genre_cell_def)

lemma load_returned:
  "load_and_clean_data parse p w = (Returned df, w') \<Longrightarrow> load_body parse (fs w) p = Inr df"
  by (auto simp: load_and_clean_data_def split: sum.splits if_splits)

lemma load_body_table:
  "load_body parse files p = Inr df \<Longrightarrow> \<exists>t. map_of files p = Some (Csv t)"
  by (auto simp: load_body_def raise_bind_def read_csv_def split: sum.splits option.splits fentry.splits)

lemma cleaned_row:
  assumes "load_and_clean_data parse p w = (Returned df, w')" and "(i, r) \<in> set (rows df)"
  obtains r0 where "r = derive_row parse r0"
proof -
  from assms(1) have b: "load_body parse (fs w) p = Inr df" by (rule load_returned)
  then obtain t where "map_of (fs w) p = Some (Csv t)" by (auto dest: load_body_table)
  from rows_load_body [OF b this] assms(2) that show thesis by auto
qed

lemma split_on_not_Nil: "split_on d s \<noteq> []"
  by (induction s) (auto split: list.splits)

lemma hd_split_on: "hd (split_on d s) = takeWhile (\<lambda>c. c \<noteq> d) s"
  by (induction s) (auto split: list.splits simp: split_on_not_Nil)

lemma str_get0_split: "str_get0 (str_split (Str s)) = Str (takeWhile (\<lambda>c. c \<noteq> CHR '','') s)"
  using split_on_not_Nil [of "CHR '',''" s] hd_split_on [of "CHR '',''" s]
  by (cases "split_on CHR '','' s") simp_all

lemma genre_cell_Str:
  "row_get r ''listed_in'' = Str s \<Longrightarrow> genre_cell r = Str (takeWhile (\<lambda>c. c \<noteq> CHR '','') s)"
  unfolding genre_cell_def by (simp only: str_get0_split)

text \<open>
  Claim C8. In every row of the returned dataset, \<open>genre\<close> is the text of
  \<open>listed_in\<close> up to, and without, its first comma; it is the whole text when the text
  has no comma.
\<close>

theorem genre_is_first_token:
  assumes "load_and_clean_data parse file_path w = (Returned df, w')"
    and "(i, r) \<in> set (rows df)"
    and "row_get r ''listed_in'' = Str s"
  shows "row_get r ''genre'' = Str (takeWhile (\<lambda>c. c \<noteq> CHR '','') s)
       \<and> (CHR '','' \<notin> set s \<longrightarrow> row_get r ''genre'' = Str s)"
proof -
  from assms(1,2) obtain r0 where r: "r = derive_row parse r0" by (rule cleaned_row)
  with assms(3) have "row_get r0 ''listed_in'' = Str s"
    by (simp add: row_get_derive_row)
  then have g: "row_get r ''genre'' = Str (takeWhile (\<lambda>c. c \<noteq> CHR '','') s)"
    by (simp add: r row_get_derive_row genre_cell_Str)
  moreover have "takeWhile (\<lambda>c. c \<noteq> CHR '','') s = s" if "CHR '','' \<notin> set s"
    using that by (intro takeWhile_eq_all_conv [THEN iffD2]) auto
  ultimately show ?thesis by simp
qed

lemma sample_load:
  "load_and_clean_data sample_parse sample_path sample_world
     = (Returned sample_df, snd (load_and_clean_data sample_parse sample_path sample_world))"
proof -
  have "is_Returned (fst (load_and_clean_data sample_parse sample_path sample_world))"
    by code_simp
  then show ?thesis
    by (simp add: sample_df_def prod_eq_iff)
qed

theorem genre_is_first_token_witness:
  "fst (load_and_clean_data sample_parse sample_path sample_world) = Returned sample_df
   \<and> rows sample_df ! 0 \<in> set (rows sample_df)
   \<and> row_get (snd (rows sample_df ! 0)) ''listed_in'' = Str ''Dramas, International Movies''
   \<and> row_get (snd (rows sample_df ! 0)) ''genre'' = Str ''Dramas''
   \<and> rows sample_df ! 3 \<in> set (rows sample_df)
   \<and> row_get (snd (rows sample_df ! 3)) ''listed_in'' = Str ''Kids TV''
   \<and> row_get (snd (rows sample_df ! 3)) ''genre'' = Str ''Kids TV''"
proof -
  have len: "length (rows sample_df) = 4" unfolding sample_df_def by code_simp
  have m0: "(fst (rows sample_df ! 0), snd (rows sample_df ! 0)) \<in> set (rows sample_df)"
    and m3: "(fst (rows sample_df ! 3), snd (rows sample_df ! 3)) \<in> set (rows sample_df)"
    using len by simp_all
  have l0: "row_get (snd (rows sample_df ! 0)) ''listed_in'' = Str ''Dramas, International Movies''"
    unfolding sample_df_def by code_simp
  have l3: "row_get (snd (rows sample_df ! 3)) ''listed_in'' = Str ''Kids TV''"
    unfolding sample_df_def by code_simp
  have f: "fst (load_and_clean_data sample_parse sample_path sample_world) = Returned sample_df"
    by (rule arg_cong [OF sample_load, of fst, simplified])
  from genre_is_first_token [OF sample_load m0 l0] genre_is_first_token [OF sample_load m3 l3]
  show ?thesis using f m0 m3 l0 l3 by simp
qed

lemma map_snd_filter_enumerate:
  "map snd (filter (\<lambda>(i, r). P r) (enumerate n xs)) = filter P xs"
proof -
  have "filter P (map snd (enumerate n xs)) = map snd (filter (P \<circ> snd) (enumerate n xs))"
    by (rule filter_map)
  then show ?thesis
    by (simp add: comp_def split_def)
qed

lemma length_filter_enumerate:
  "length (filter (\<lambda>(i, r). P r) (enumerate n xs)) = length (filter P xs)"
  using arg_cong [OF map_snd_filter_enumerate [of P n xs], of length] by simp

lemma map_fst_filter_enumerate:
  "map fst (filter (\<lambda>(i, r). P r) (enumerate 0 xs)) = filter (\<lambda>i. P (xs ! i)) [0..<length xs]"
proof -
  have "filter (\<lambda>(i, r). P r) (enumerate 0 xs) = filter (\<lambda>(i, r). P (xs ! i)) (enumerate 0 xs)"
    by (rule filter_cong) (auto simp: in_set_enumerate_eq)
  moreover have "filter (\<lambda>i. P (xs ! i)) (map fst (enumerate 0 xs))
      = map fst (filter ((\<lambda>i. P (xs ! i)) \<circ> fst) (enumerate 0 xs))"
    by (rule filter_map)
  ultimately show ?thesis
    by (simp add: comp_def split_def)
qed

text \<open>
  Claim C1. When the table of the file has \<open>N\<close> rows, \<open>K\<close> of them with a missing
  value in some column, the returned dataset has \<open>N - K\<close> rows: its labels are the
  positions of the complete rows, and its rows are the complete rows, in their order,
  each with its three derived cells.
\<close>

theorem cleaned_row_count:
  assumes "map_of (fs w) file_path = Some (Csv t)"
    and "load_and_clean_data parse file_path w = (Returned df, w')"
  shows "length (rows df) = length (body t) - length (filter (has_missing (header t)) (body t))
       \<and> map fst (rows df) = filter (\<lambda>i. \<not> has_missing (header t) (body t ! i)) [0..<length (body t)]
       \<and> map snd (rows df) = map (derive_row parse) (filter (\<lambda>r. \<not> has_missing (header t) r) (body t))"
proof -
  let ?P = "\<lambda>r. \<not> has_missing (header t) r"
  let ?kept = "filter (\<lambda>(i, r). ?P r) (enumerate 0 (body t))"
  from assms(2) have "load_body parse (fs w) file_path = Inr df" by (rule load_returned)
  from rows_load_body [OF this assms(1)]
  have r: "rows df = map (\<lambda>(i, r). (i, derive_row parse r)) ?kept" .
  have "length (rows df) = length (filter ?P (body t))"
    unfolding r by (simp add: length_filter_enumerate)
  moreover have "length (filter (has_missing (header t)) (body t)) + length (filter ?P (body t)) = length (body t)"
    by (rule sum_length_filter_compl)
  ultimately have 1: "length (rows df) = length (body t) - length (filter (has_missing (header t)) (body t))"
    by simp
  have "map fst (rows df) = map fst ?kept"
    unfolding r by (simp add: comp_def split_def)
  then have 2: "map fst (rows df) = filter (\<lambda>i. ?P (body t ! i)) [0..<length (body t)]"
    by (simp only: map_fst_filter_enumerate)
  have "map snd (rows df) = map (derive_row parse) (map snd ?kept)"
    unfolding r by (simp add: comp_def split_def)
  also have "map snd ?kept = filter ?P (body t)"
    by (rule map_snd_filter_enumerate)
  finally have 3: "map snd (rows df) = map (derive_row parse) (filter ?P (body t))"
    by simp
  from 1 2 3 show ?thesis by blast
qed

theorem cleaned_row_count_witness:
  "map_of (fs sample_world) sample_path = Some (Csv sample_table)
   \<and> fst (load_and_clean_data sample_parse sample_path sample_world) = Returned sample_df
   \<and> length (body sample_table) = 5
   \<and> length (filter (has_missing (header sample_table)) (body sample_table)) = 1
   \<and> length (rows sample_df) = 4
   \<and> map fst (rows sample_df) = [0, 1, 3, 4]"
proof -
  have h: "map_of (fs sample_world) sample_path = Some (Csv sample_table)"
    by (simp add: sample_world_def sample_path_def)
  have f: "fst (load_and_clean_data sample_parse sample_path sample_world) = Returned sample_df"
    by (rule arg_cong [OF sample_load, of fst, simplified])
  have n: "length (body sample_table) = 5" by code_simp
  have k: "length (filter (has_missing (header sample_table)) (body sample_table)) = 1"
    by code_simp
  have i: "filter (\<lambda>i. \<not> has_missing (header sample_table) (body sample_table ! i))
             [0..<length (body sample_table)] = [0, 1, 3, 4]"
    by code_simp
  from cleaned_row_count [OF h sample_load] show ?thesis
    using h f n k i by simp
qed

lemma first_digits_leading:
  "takeWhile is_digit s \<noteq> [] \<Longrightarrow> first_digits s = takeWhile is_digit s"
  by (cases s) (auto simp: first_digits_def split: if_splits)

lemma duration_cell_Movie:
  "row_get r ''type'' = Str ''Movie'' \<Longrightarrow> row_get r ''duration'' = Str s \<Longrightarrow>
   duration_cell r = (if first_digits s = [] then NaN else Num (decimal (first_digits s)))"
  by (simp add: duration_cell_def)


lemma odd_load:
  "load_and_clean_data sample_parse sample_path odd_world
     = (Returned odd_df, snd (load_and_clean_data sample_parse sample_path odd_world))"
proof -
  have "is_Returned (fst (load_and_clean_data sample_parse sample_path odd_world))"
    by code_simp
  then show ?thesis
    by (simp add: odd_df_def prod_eq_iff)
qed



lemma derive_duration_min_errors:
  "derive_duration_min df = Inl e \<Longrightarrow> e = KeyError \<or> e = AttributeError"
  by (auto simp: derive_duration_min_def raise_bind_def where_eq_def getitem_def str_accessor_def
      split: if_splits)

lemma derive_genre_errors:
  "derive_genre df = Inl e \<Longrightarrow> e = KeyError \<or> e = AttributeError"
  by (auto simp: derive_genre_def raise_bind_def getitem_def str_accessor_def map_values_def
      split: if_splits)

lemma derive_year_added_errors:
  "derive_year_added parse df = Inl e \<Longrightarrow> e = KeyError \<or> e = ValueError"
  by (auto simp: derive_year_added_def raise_bind_def getitem_def to_datetime_year_def
      split: if_splits)

lemma load_body_errors:
  assumes "load_body parse files p = Inl e" and "map_of files p = Some (Csv t)"
  shows "e = KeyError \<or> e = AttributeError \<or> e = ValueError"
proof -
  from assms(2) obtain df0 where r: "read_csv files p = Inr df0"
    by (simp add: read_csv_def)
  show ?thesis
  proof (cases "derive_duration_min (dropna df0)")
    case (Inl e1)
    with assms(1) r have "e = e1" by (simp add: load_body_def raise_bind_def)
    with Inl show ?thesis by (auto dest: derive_duration_min_errors)
  next
    case (Inr df1)
    show ?thesis
    proof (cases "derive_genre df1")
      case (Inl e2)
      with assms(1) r Inr have "e = e2" by (simp add: load_body_def raise_bind_def)
      with Inl show ?thesis by (auto dest: derive_genre_errors)
    next
      case (Inr df2)
      with assms(1) r \<open>derive_duration_min (dropna df0) = Inr df1\<close>
      have "derive_year_added parse df2 = Inl e" by (simp add: load_body_def raise_bind_def)
      then show ?thesis by (auto dest: derive_year_added_errors)
    qed
  qed
qed

lemma kept_row_in_result:
  assumes "load_body parse files p = Inr df" and "map_of files p = Some (Csv t)"
    and "r \<in> set (body t)" and "\<not> has_missing (header t) r"
  shows "\<exists>i. (i, derive_row parse r) \<in> set (rows df)"
proof -
  from assms(3) obtain i where i: "i < length (body t)" "body t ! i = r"
    by (auto simp: in_set_conv_nth)
  then have "(i, r) \<in> set (enumerate 0 (body t))"
    by (simp add: in_set_enumerate_eq)
  with assms(4) have "(i, r) \<in> set (filter (\<lambda>(i, r). \<not> has_missing (header t) r) (enumerate 0 (body t)))"
    by simp
  then have "(i, derive_row parse r) \<in> set (rows df)"
    unfolding rows_load_body [OF assms(1,2)] by force
  then show ?thesis ..
qed

lemma rows_setitem_mem:
  "(i, r') \<in> set (rows (setitem df c s)) \<Longrightarrow>
   \<exists>r v. (i, r) \<in> set (rows df) \<and> r' = AList.update c v r"
  by (auto simp: setitem_def)

lemma returned_dates_parse:
  assumes "load_body parse files p = Inr df" and "(i, r') \<in> set (rows df)"
  shows "\<not> unparsable parse (row_get r' ''date_added'')"
proof -
  from assms(1) obtain df2 where d3: "derive_year_added parse df2 = Inr df"
    by (auto simp: load_body_def raise_bind_def split: sum.splits)
  then obtain s where "df = setitem df2 ''year_added'' s"
    by (auto simp: derive_year_added_def raise_bind_def split: sum.splits)
  with assms(2) obtain r v where r: "(i, r) \<in> set (rows df2)" "r' = AList.update ''year_added'' v r"
    by (auto dest: rows_setitem_mem)
  from dates_parse_derive_year_added [OF d3 r(1)] r(2) show ?thesis
    by (simp add: row_get_update)
qed

lemma unparsable_not_returned:
  assumes "map_of files p = Some (Csv t)" and "r \<in> set (body t)"
    and "\<not> has_missing (header t) r" and "unparsable parse (row_get r ''date_added'')"
  shows "load_body parse files p \<noteq> Inr df"
proof
  assume b: "load_body parse files p = Inr df"
  from kept_row_in_result [OF b assms(1-3)] obtain i
    where "(i, derive_row parse r) \<in> set (rows df)" ..
  from returned_dates_parse [OF b this] assms(4) show False
    by (simp add: row_get_derive_row)
qed

lemma dtype_of_setitem:
  "dtype_of (setitem df c s) c' = (if c' = c then s_dtype s else dtype_of df c')"
  by (simp add: dtype_of_def setitem_def update_conv')

lemma columns_setitem: "set (columns df) \<subseteq> set (columns (setitem df c s))"
  by (auto simp: setitem_def)

lemma derive_duration_min_ok:
  assumes "''type'' \<in> set (columns df)" and "''duration'' \<in> set (columns df)"
    and "dtype_of df ''duration'' = Object"
  shows "\<exists>df'. derive_duration_min df = Inr df' \<and> set (columns df) \<subseteq> set (columns df')
           \<and> (\<forall>c. c \<noteq> ''duration_min'' \<longrightarrow> dtype_of df' c = dtype_of df c)"
proof -
  from assms have "\<exists>s. derive_duration_min df = Inr (setitem df ''duration_min'' s)"
    by (auto simp: derive_duration_min_def raise_bind_def where_eq_def getitem_def
        str_accessor_def dtype_of_def)
  then obtain s where "derive_duration_min df = Inr (setitem df ''duration_min'' s)" ..
  then show ?thesis
    using columns_setitem [of df "''duration_min''" s] by (simp add: dtype_of_setitem)
qed

lemma derive_genre_ok:
  assumes "''listed_in'' \<in> set (columns df)" and "dtype_of df ''listed_in'' = Object"
  shows "\<exists>df'. derive_genre df = Inr df' \<and> set (columns df) \<subseteq> set (columns df')"
proof -
  from assms have "\<exists>s. derive_genre df = Inr (setitem df ''genre'' s)"
    by (auto simp: derive_genre_def raise_bind_def getitem_def str_accessor_def map_values_def)
  then obtain s where "derive_genre df = Inr (setitem df ''genre'' s)" ..
  then show ?thesis
    using columns_setitem [of df "''genre''" s] by simp
qed

lemma dtype_of_read_csv:
  assumes "read_csv files p = Inr df" and "map_of files p = Some (Csv t)" and "c \<in> set (header t)"
  shows "dtype_of (dropna df) c = infer_dtype (body t) c"
proof -
  from assms(1,2) have "dtypes df = map (\<lambda>c. (c, infer_dtype (body t) c)) (header t)"
    by (auto simp: read_csv_def)
  then have "map_of (dtypes (dropna df)) c = Some (infer_dtype (body t) c)"
    using assms(3) by (simp add: dropna_def map_of_map_restrict)
  then show ?thesis by (simp add: dtype_of_def)
qed

lemma load_body_ValueError:
  assumes "load_body parse files p = Inl e" and "map_of files p = Some (Csv t)"
    and "set [''type'', ''duration'', ''listed_in'', ''date_added''] \<subseteq> set (header t)"
    and "infer_dtype (body t) ''duration'' = Object"
    and "infer_dtype (body t) ''listed_in'' = Object"
  shows "e = ValueError"
proof -
  from assms(2) obtain df0 where r: "read_csv files p = Inr df0"
    by (simp add: read_csv_def)
  with assms(2) have c0: "columns (dropna df0) = header t"
    by (auto simp: read_csv_def dropna_def)
  have "dtype_of (dropna df0) ''duration'' = Object"
    using dtype_of_read_csv [OF r assms(2), of "''duration''"] assms(3,4) by simp
  with derive_duration_min_ok [of "dropna df0"] assms(3) c0 obtain df1
    where d1: "derive_duration_min (dropna df0) = Inr df1"
      and c1: "set (header t) \<subseteq> set (columns df1)"
      and t1: "dtype_of df1 ''listed_in'' = dtype_of (dropna df0) ''listed_in''"
    by auto
  have "dtype_of df1 ''listed_in'' = Object"
    using dtype_of_read_csv [OF r assms(2), of "''listed_in''"] assms(3,5) t1 by simp
  with derive_genre_ok [of df1] assms(3) c1 obtain df2
    where d2: "derive_genre df1 = Inr df2" and c2: "set (header t) \<subseteq> set (columns df2)"
    by auto
  from assms(1) r d1 d2 have "derive_year_added parse df2 = Inl e"
    by (simp add: load_body_def raise_bind_def)
  moreover from c2 assms(3) have "''date_added'' \<in> set (columns df2)" by auto
  ultimately show ?thesis
    by (auto simp: derive_year_added_def raise_bind_def getitem_def to_datetime_year_def
        split: if_splits)
qed

text \<open>
  Claim C3, amended. When a complete row of the table has a \<open>date_added\<close> value that
  the date parser rejects, \<^verbatim>\<open>load_and_clean_data\<close> returns no dataset: the exception of
  the library leaves the function, which catches \<^verbatim>\<open>FileNotFoundError\<close> only, and nothing
  is logged. The exception is the \<^verbatim>\<open>ValueError\<close> of \<^verbatim>\<open>to_datetime\<close> when the
  table has the four columns that the loader reads, with texts in \<open>duration\<close> and
  \<open>listed_in\<close>.
\<close>

theorem unparsable_date_raises:
  assumes "map_of (fs w) file_path = Some (Csv t)"
    and "r \<in> set (body t)" and "\<not> has_missing (header t) r"
    and "unparsable parse (row_get r ''date_added'')"
  shows "\<exists>e. load_and_clean_data parse file_path w = (Raised e, w)
           \<and> (e = KeyError \<or> e = AttributeError \<or> e = ValueError)
           \<and> (set [''type'', ''duration'', ''listed_in'', ''date_added''] \<subseteq> set (header t)
                \<and> infer_dtype (body t) ''duration'' = Object
                \<and> infer_dtype (body t) ''listed_in'' = Object \<longrightarrow> e = ValueError)"
proof (cases "load_body parse (fs w) file_path")
  case (Inl e)
  from load_body_errors [OF Inl assms(1)] have e: "e = KeyError \<or> e = AttributeError \<or> e = ValueError" .
  then have "e \<noteq> FileNotFoundError" by auto
  with Inl have "load_and_clean_data parse file_path w = (Raised e, w)"
    by (simp add: load_and_clean_data_def)
  with e load_body_ValueError [OF Inl assms(1)] show ?thesis by blast
next
  case (Inr df)
  with unparsable_not_returned [OF assms, of df] show ?thesis by simp
qed

theorem unparsable_date_raises_witness:
  "map_of (fs bad_date_world) sample_path = Some (Csv bad_date_table)
   \<and> body bad_date_table ! 1 \<in> set (body bad_date_table)
   \<and> \<not> has_missing (header bad_date_table) (body bad_date_table ! 1)
   \<and> row_get (body bad_date_table ! 1) ''date_added'' = Str ''not a date''
   \<and> unparsable sample_parse (Str ''not a date'')
   \<and> load_and_clean_data sample_parse sample_path bad_date_world = (Raised ValueError, bad_date_world)"
proof -
  have h1: "map_of (fs bad_date_world) sample_path = Some (Csv bad_date_table)"
    by (simp add: bad_date_world_def)
  have h2: "body bad_date_table ! 1 \<in> set (body bad_date_table)"
    by (simp add: bad_date_table_def)
  have h3: "\<not> has_missing (header bad_date_table) (body bad_date_table ! 1)"
    by code_simp
  have d: "row_get (body bad_date_table ! 1) ''date_added'' = Str ''not a date''"
    by code_simp
  have u: "unparsable sample_parse (Str ''not a date'')"
    by code_simp
  have h4: "unparsable sample_parse (row_get (body bad_date_table ! 1) ''date_added'')"
    using u by (simp only: d)
  have f: "fst (load_and_clean_data sample_parse sample_path bad_date_world) = Raised ValueError"
    by code_simp
  from unparsable_date_raises [OF h1 h2 h3 h4] f
  have "load_and_clean_data sample_parse sample_path bad_date_world = (Raised ValueError, bad_date_world)"
    by auto
  with h1 h2 h3 d u show ?thesis by simp
qed

text \<open>
  Claim C3 as stated fails: the second row of \<open>bad_date_table\<close> is complete, its date
  text is no date, and the loader raises instead of returning a row with a missing year.
\<close>

theorem unparsable_date_no_missing_year:
  "row_get (body bad_date_table ! 1) ''date_added'' = Str ''not a date''
   \<and> \<not> has_missing (header bad_date_table) (body bad_date_table ! 1)
   \<and> sample_parse (Str ''not a date'') = None
   \<and> fst (load_and_clean_data sample_parse sample_path bad_date_world) = Raised ValueError
   \<and> \<not> is_Returned (fst (load_and_clean_data sample_parse sample_path bad_date_world))"
  by code_simp



section \<open>Properties of the chart renderer\<close>

lemma draw_None_iff:
  "draw kind data = Inr None \<longleftrightarrow> kind \<notin> {''bar'', ''line'', ''hist'', ''scatter'', ''count''}"
  by (simp add: draw_def split: chart_data.splits)




end
